theory Spec2Isabelle
  imports Main
begin

section \<open>Python strings\<close>

text \<open>
  The module is Python 2 (it uses the print statement), so a \<open>str\<close> is a byte string
  and the whitespace of \<open>split\<close> and \<open>strip\<close> is the six ASCII characters
  space, tab, newline, vertical tab, form feed and carriage return.
\<close>

definition isspace :: "char \<Rightarrow> bool" where
  "isspace c = (let n = (of_char c :: nat) in n = 32 \<or> (9 \<le> n \<and> n \<le> 13))"

definition upper_char :: "char \<Rightarrow> char" where
  "upper_char c =
     (let n = (of_char c :: nat) in if 97 \<le> n \<and> n \<le> 122 then char_of (n - 32) else c)"

definition upper :: "string \<Rightarrow> string" where
  "upper s = map upper_char s"

text \<open>
  \<open>s.split()\<close> with no separator: the maximal runs of non-whitespace characters,
  in order. \<open>split_aux cur s\<close> scans \<open>s\<close> with the token read so far in \<open>cur\<close>.
\<close>

fun split_aux :: "string \<Rightarrow> string \<Rightarrow> string list" where
  "split_aux cur [] = (if cur = [] then [] else [cur])"
| "split_aux cur (c # cs) =
     (if isspace c then (if cur = [] then split_aux [] cs else cur # split_aux [] cs)
      else split_aux (cur @ [c]) cs)"

definition split :: "string \<Rightarrow> string list" where
  "split s = split_aux [] s"

definition strip :: "string \<Rightarrow> string" where
  "strip s = rev (dropWhile isspace (rev (dropWhile isspace s)))"

definition startswith :: "string \<Rightarrow> string \<Rightarrow> bool" where
  "startswith s pre = (take (length pre) s = pre)"

text \<open>The conversions \<open>%-15s\<close> and \<open>%25s\<close>: pad to a minimum width, never truncate.\<close>

definition ljust :: "nat \<Rightarrow> string \<Rightarrow> string" where
  "ljust n s = s @ replicate (n - length s) CHR '' ''"

definition rjust :: "nat \<Rightarrow> string \<Rightarrow> string" where
  "rjust n s = replicate (n - length s) CHR '' '' @ s"

section \<open>Exceptions\<close>

datatype error =
    ValueError
  | KeyError string
  | AttributeError string
  | DuplicateParameter string
  | OtherError string

text \<open>
  \<open>int(s)\<close> on a token (a non-empty string without whitespace): an optional sign and
  then one or more decimal digits; anything else raises \<open>ValueError\<close>.
\<close>

definition isdigit :: "char \<Rightarrow> bool" where
  "isdigit c = (let n = (of_char c :: nat) in 48 \<le> n \<and> n \<le> 57)"

definition digits_value :: "string \<Rightarrow> int" where
  "digits_value ds = foldl (\<lambda>acc c. 10 * acc + (int (of_char c) - 48)) 0 ds"

definition py_int :: "string \<Rightarrow> error + int" where
  "py_int s =
     (let (sign, ds) = (case s of
                          [] \<Rightarrow> (1, [])
                        | c # cs \<Rightarrow> if c = CHR ''-'' then (- 1, cs)
                                    else if c = CHR ''+'' then (1, cs) else (1, s))
      in if ds \<noteq> [] \<and> list_all isdigit ds then Inr (sign * digits_value ds)
         else Inl ValueError)"

section \<open>Parameter\<close>

text \<open>
  The alias list of a parameter is a mutable list object that several parameters may hold
  (\<open>self.aliases = aliases\<close> stores the reference it was given), so the field is a
  reference into a store of list objects.
\<close>

type_synonym ref = nat

record store =
  cells :: "ref \<Rightarrow> string list"
  next_free :: ref

definition alloc :: "store \<Rightarrow> string list \<Rightarrow> ref \<times> store" where
  "alloc h xs = (next_free h, h\<lparr>cells := (cells h)(next_free h := xs), next_free := Suc (next_free h)\<rparr>)"

text \<open>
  The default \<open>aliases=[]\<close> of \<open>Parameter.__init__\<close> is one list object, made when the
  function is defined; \<open>MJDParameter.__init__\<close> has another. They are the first two
  objects of the store.
\<close>

definition Parameter_default_aliases :: ref where
  "Parameter_default_aliases = 0"

definition MJDParameter_default_aliases :: ref where
  "MJDParameter_default_aliases = 1"

definition initial_store :: store where
  "initial_store = \<lparr>cells = (\<lambda>_. []), next_free = 2\<rparr>"

text \<open>
  A value of type \<open>'v\<close> is a parameter value other than \<open>None\<close>, a value of type
  \<open>'u\<close> an uncertainty other than \<open>None\<close>. The name is a string in every construction
  of the repository. \<open>parse_value\<close> may raise and may return \<open>None\<close>. The
  attribute \<open>value\<close> is the field \<open>val\<close>, and the method \<open>set\<close> is
  \<open>set_value\<close>.
\<close>

record ('v, 'u) Parameter =
  val :: "'v option"
  name :: string
  units :: "string option"
  description :: "string option"
  uncertainty :: "'u option"
  frozen :: bool
  continuous :: bool
  aliases :: ref
  parse_value :: "string \<Rightarrow> error + 'v option"
  print_value :: "'v \<Rightarrow> string"

text \<open>
  \<open>Parameter.__init__\<close>, with the arguments in the order of the signature. Python
  fills in the defaults (\<open>None\<close> for name, value, units, description and uncertainty,
  \<open>True\<close> for frozen and continuous); here the caller writes them. The argument
  \<open>aliases\<close> is \<open>Some r\<close> when the caller passes the list object at \<open>r\<close>
  and \<open>None\<close> when the caller passes nothing: then \<open>self.aliases\<close> is the one
  list object of the default \<open>aliases=[]\<close>, the same in every such call.
\<close>

definition Parameter_init ::
  "string \<Rightarrow> 'v option \<Rightarrow> string option \<Rightarrow> string option \<Rightarrow> 'u option \<Rightarrow> bool \<Rightarrow> ref option
     \<Rightarrow> bool \<Rightarrow> (string \<Rightarrow> error + 'v option) \<Rightarrow> ('v \<Rightarrow> string) \<Rightarrow> ('v, 'u) Parameter" where
  "Parameter_init nm value un descr unc frz als cont parse prt =
     \<lparr>val = value, name = nm, units = un, description = descr, uncertainty = unc,
      frozen = frz, continuous = cont,
      aliases = (case als of None \<Rightarrow> Parameter_default_aliases | Some r \<Rightarrow> r),
      parse_value = parse, print_value = prt\<rparr>"

definition set_value :: "('v, 'u) Parameter \<Rightarrow> string \<Rightarrow> (error + unit) \<times> ('v, 'u) Parameter" where
  "set_value p s =
     (case parse_value p s of
        Inl e \<Rightarrow> (Inl e, p)
      | Inr v \<Rightarrow> (Inr (), p\<lparr>val := v\<rparr>))"

definition add_alias :: "store \<Rightarrow> ('v, 'u) Parameter \<Rightarrow> string \<Rightarrow> store" where
  "add_alias h p alias = h\<lparr>cells := (cells h)(aliases p := cells h (aliases p) @ [alias])\<rparr>"

text \<open>
  \<open>as_parfile_line\<close>. \<open>str_unc\<close> is Python's \<open>str\<close> on an uncertainty.
\<close>

definition as_parfile_line :: "('u \<Rightarrow> string) \<Rightarrow> ('v, 'u) Parameter \<Rightarrow> string" where
  "as_parfile_line str_unc p =
     (case val p of
        None \<Rightarrow> ''''
      | Some v \<Rightarrow>
          (let line = ljust 15 (name p) @ '' '' @ rjust 25 (print_value p v);
               line = (case uncertainty p of
                         Some u \<Rightarrow> line @ '' '' @ (if frozen p then ''0'' else ''1'') @ '' '' @ str_unc u
                       | None \<Rightarrow> if \<not> frozen p then line @ '' 1'' else line)
           in line @ [CHR 0x0A]))"

text \<open>
  \<open>from_parfile_line\<close>. The result is what the call returns or raises, and the
  parameter as the call leaves it. \<open>fortran_float\<close> is not defined in this module; it
  is the function given as \<open>ff\<close>.
\<close>

definition from_parfile_line ::
  "(string \<Rightarrow> error + 'u) \<Rightarrow> store \<Rightarrow> ('v, 'u) Parameter \<Rightarrow> string
     \<Rightarrow> (error + bool) \<times> ('v, 'u) Parameter" where
  "from_parfile_line ff h p line =
     (case split line of
        [] \<Rightarrow> (Inr False, p)
      | k0 # ks \<Rightarrow>
          (let nm = upper k0; k = k0 # ks in
           if nm \<noteq> name p \<and> nm \<notin> set (cells h (aliases p)) then (Inr False, p)
           else if length k < 2 then (Inr False, p)
           else
             (case set_value p (k ! 1) of
                (Inl e, p1) \<Rightarrow> (Inl e, p1)
              | (Inr _, p1) \<Rightarrow>
                  (case (if length k \<ge> 3
                         then (case py_int (k ! 2) of
                                 Inl e \<Rightarrow> Inl e
                               | Inr n \<Rightarrow> Inr (if n > 0 then p1\<lparr>frozen := False\<rparr> else p1))
                         else Inr p1) of
                     Inl e \<Rightarrow> (Inl e, p1)
                   | Inr p2 \<Rightarrow>
                       (if length k = 4
                        then (case ff (k ! 3) of
                                Inl e \<Rightarrow> (Inl e, p2)
                              | Inr u \<Rightarrow> (Inr True, p2\<lparr>uncertainty := Some u\<rparr>))
                        else (Inr True, p2))))))"

section \<open>TimingModel\<close>

text \<open>
  The parameters of a model are attributes that \<open>add_param\<close> sets on the model object
  with \<open>setattr\<close>; \<open>attrs\<close> holds them by name. The other attributes of the object
  are the six fields that \<open>__init__\<close> assigns, the names bound in the class body, and
  what every new-style class inherits from \<open>object\<close>.
\<close>

record ('v, 'u, 'toa, 'd, 'ph) TimingModel =
  params :: "string list"
  delay_funcs :: "('toa \<Rightarrow> 'd) list"
  phase_funcs :: "('toa \<Rightarrow> 'd \<Rightarrow> 'ph) list"
  delay_derivs :: "string \<rightharpoonup> ('toa \<Rightarrow> 'd) list"
  phase_derivs :: "string \<rightharpoonup> ('toa \<Rightarrow> 'ph) list"
  d_phase_funcs :: "('toa \<Rightarrow> 'ph) list"
  attrs :: "string \<rightharpoonup> ('v, 'u) Parameter"

definition instance_attrs :: "string list" where
  "instance_attrs =
     [''params'', ''delay_funcs'', ''phase_funcs'', ''delay_derivs'', ''phase_derivs'',
      ''d_phase_funcs'']"

definition class_attrs :: "string list" where
  "class_attrs =
     [''__init__'', ''setup'', ''add_param'', ''param_help'', ''phase'', ''delay'',
      ''d_phase_d_tpulsar'', ''d_phase_d_toa'', ''d_phase_d_param'', ''d_delay_d_param'',
      ''__str__'', ''as_parfile'', ''read_parfile'']"

definition object_attrs :: "string list" where
  "object_attrs =
     [''__class__'', ''__delattr__'', ''__dict__'', ''__doc__'', ''__format__'',
      ''__getattribute__'', ''__hash__'', ''__module__'', ''__new__'', ''__reduce__'',
      ''__reduce_ex__'', ''__repr__'', ''__setattr__'', ''__sizeof__'', ''__subclasshook__'',
      ''__weakref__'']"

definition hasattr :: "('v, 'u, 'toa, 'd, 'ph) TimingModel \<Rightarrow> string \<Rightarrow> bool" where
  "hasattr m n =
     (n \<in> set instance_attrs \<or> n \<in> set class_attrs \<or> n \<in> set object_attrs \<or> attrs m n \<noteq> None)"

text \<open>
  \<open>add_param\<close>: what the call raises, if anything, and the model as the call leaves it.
\<close>

definition add_param ::
  "('v, 'u, 'toa, 'd, 'ph) TimingModel \<Rightarrow> ('v, 'u) Parameter
     \<Rightarrow> (error + unit) \<times> ('v, 'u, 'toa, 'd, 'ph) TimingModel" where
  "add_param m p =
     (if hasattr m (name p) then (Inl (DuplicateParameter (name p)), m)
      else
        (let m1 = m\<lparr>attrs := (attrs m)(name p \<mapsto> p)\<rparr>;
             m2 = m1\<lparr>params := params m1 @ [name p]\<rparr>
         in if continuous p
            then (Inr (), m2\<lparr>delay_derivs := (delay_derivs m2)(name p \<mapsto> []),
                               phase_derivs := (phase_derivs m2)(name p \<mapsto> [])\<rparr>)
            else (Inr (), m2)))"

text \<open>
  \<open>TimingModel.__init__\<close>. The list \<open>["PSRJ","PSRB"]\<close> is a new list object.
  \<open>of_str\<close> is \<open>str\<close> as the parser of the source name (a string is its own
  value), \<open>str_val\<close> is \<open>str\<close> as the default \<open>print_value\<close>.
\<close>

definition TimingModel_init ::
  "(string \<Rightarrow> 'v) \<Rightarrow> ('v \<Rightarrow> string) \<Rightarrow> store
     \<Rightarrow> ((error + unit) \<times> ('v, 'u, 'toa, 'd, 'ph) TimingModel) \<times> store" where
  "TimingModel_init of_str str_val h =
     (let m = \<lparr>params = [], delay_funcs = [], phase_funcs = [], delay_derivs = Map.empty,
                phase_derivs = Map.empty, d_phase_funcs = [], attrs = Map.empty\<rparr>;
          (r, h1) = alloc h [''PSRJ'', ''PSRB'']
      in (add_param m
            (Parameter_init ''PSR'' None None (Some ''Source name'') None True (Some r) True
               (\<lambda>s. Inr (Some (of_str s))) str_val),
          h1))"

text \<open>
  The method \<open>setup\<close> of the base class, which does nothing.
\<close>

definition TimingModel_setup ::
  "('v, 'u, 'toa, 'd, 'ph) TimingModel \<Rightarrow> (error + unit) \<times> ('v, 'u, 'toa, 'd, 'ph) TimingModel" where
  "TimingModel_setup m = (Inr (), m)"

text \<open>
  \<open>delay\<close> and \<open>d_delay_d_param\<close> start from \<open>0.0\<close> and add each function's
  value in list order. The number type is left open: it has a zero and an addition, and
  nothing is assumed of them (the addition of doubles is not associative).
\<close>

definition delay :: "('v, 'u, 'toa, 'd::{zero,plus}, 'ph) TimingModel \<Rightarrow> 'toa \<Rightarrow> 'd" where
  "delay m toa = foldl (\<lambda>acc df. acc + df toa) 0 (delay_funcs m)"

definition d_delay_d_param ::
  "('v, 'u, 'toa, 'd::{zero,plus}, 'ph) TimingModel \<Rightarrow> 'toa \<Rightarrow> string \<Rightarrow> error + 'd" where
  "d_delay_d_param m toa param =
     (case delay_derivs m param of
        None \<Rightarrow> Inl (KeyError param)
      | Some fs \<Rightarrow> Inr (foldl (\<lambda>result f. result + f toa) 0 fs))"

text \<open>
  \<open>read_parfile\<close> on the lines that \<open>readlines\<close> returns. The inner loop
  offers the stripped line to every parameter of \<open>self.params\<close> in order and does
  not stop at the first that claims it. What the call does beyond changing the model is
  kept as a list of events: the calls of \<open>warn\<close> and of \<open>self.setup\<close>.
\<close>

datatype event = Warning string | Call_setup

definition warning_message :: "string \<Rightarrow> string" where
  "warning_message l = ''Unrecognized parfile line '' @ [CHR 0x27] @ l @ [CHR 0x27]"

fun offer_line ::
  "(string \<Rightarrow> error + 'u) \<Rightarrow> store \<Rightarrow> ('v, 'u, 'toa, 'd, 'ph) TimingModel \<Rightarrow> string \<Rightarrow> string list
     \<Rightarrow> bool \<Rightarrow> (error + bool) \<times> ('v, 'u, 'toa, 'd, 'ph) TimingModel" where
  "offer_line ff h m l [] parsed = (Inr parsed, m)"
| "offer_line ff h m l (par # pars) parsed =
     (case attrs m par of
        None \<Rightarrow> (Inl (AttributeError par), m)
      | Some p \<Rightarrow>
          (case from_parfile_line ff h p l of
             (Inl e, p1) \<Rightarrow> (Inl e, m\<lparr>attrs := (attrs m)(par \<mapsto> p1)\<rparr>)
           | (Inr claimed, p1) \<Rightarrow>
               offer_line ff h (m\<lparr>attrs := (attrs m)(par \<mapsto> p1)\<rparr>) l pars
                 (if claimed then True else parsed)))"

fun read_lines ::
  "(string \<Rightarrow> error + 'u) \<Rightarrow> store \<Rightarrow> ('v, 'u, 'toa, 'd, 'ph) TimingModel \<Rightarrow> string list
     \<Rightarrow> (error + unit) \<times> ('v, 'u, 'toa, 'd, 'ph) TimingModel \<times> event list" where
  "read_lines ff h m [] = (Inr (), m, [])"
| "read_lines ff h m (l0 # ls) =
     (let l = strip l0 in
      if l = [] then read_lines ff h m ls
      else if startswith l ''#'' then read_lines ff h m ls
      else
        (case offer_line ff h m l (params m) False of
           (Inl e, m1) \<Rightarrow> (Inl e, m1, [])
         | (Inr parsed, m1) \<Rightarrow>
             (let w = (if \<not> parsed then [Warning (warning_message l)] else []);
                  (r, m2, evs) = read_lines ff h m1 ls
              in (r, m2, w @ evs))))"

definition read_parfile ::
  "(string \<Rightarrow> error + 'u) \<Rightarrow> store \<Rightarrow> ('v, 'u, 'toa, 'd, 'ph) TimingModel \<Rightarrow> string list
     \<Rightarrow> (error + unit) \<times> ('v, 'u, 'toa, 'd, 'ph) TimingModel \<times> event list" where
  "read_parfile ff h m lines =
     (case read_lines ff h m lines of
        (Inl e, m1, evs) \<Rightarrow> (Inl e, m1, evs)
      | (Inr _, m1, evs) \<Rightarrow>
          (case TimingModel_setup m1 of (r, m2) \<Rightarrow> (r, m2, evs @ [Call_setup])))"

section \<open>Notions used in the statements\<close>

text \<open>
  A token is what \<open>split\<close> can return as one field: a non-empty string without
  whitespace. \<open>name_matches\<close> is the test of \<open>from_parfile_line\<close> on the first
  field: upper-cased, it is the parameter's name or one of its aliases.
\<close>

definition is_token :: "string \<Rightarrow> bool" where
  "is_token s = (s \<noteq> [] \<and> list_all (\<lambda>c. \<not> isspace c) s)"

definition name_matches :: "store \<Rightarrow> ('v, 'u) Parameter \<Rightarrow> string \<Rightarrow> bool" where
  "name_matches h p tok = (upper tok = name p \<or> upper tok \<in> set (cells h (aliases p)))"

definition line_matches :: "store \<Rightarrow> ('v, 'u) Parameter \<Rightarrow> string \<Rightarrow> bool" where
  "line_matches h p line = (case split line of [] \<Rightarrow> False | k0 # ks \<Rightarrow> name_matches h p k0)"

text \<open>
  The names that \<open>hasattr\<close> finds on every model, whatever has been registered.
\<close>

definition reserved_attrs :: "string list" where
  "reserved_attrs = instance_attrs @ class_attrs @ object_attrs"

text \<open>
  For \<open>read_parfile\<close>: a line is skipped when it is blank or its first non-whitespace
  character is \<open>#\<close>; a parameter claims a line when the first field matches and there
  are at least two fields; a line is claimed by the model when one of its registered
  parameters claims it. \<open>same_names\<close> relates two states of a model whose parameters
  have the same names and alias lists.
\<close>

definition skipped :: "string \<Rightarrow> bool" where
  "skipped l =
     (list_all isspace l \<or>
      (case dropWhile isspace l of [] \<Rightarrow> False | c # cs \<Rightarrow> c = CHR ''#''))"





subsection \<open>Concrete objects\<close>

text \<open>
  The model that \<open>TimingModel()\<close> builds in the initial store, with strings as values:
  its only parameter is \<open>PSR\<close>, whose alias list is the object at address 2.
  \<open>int_float\<close> stands for \<open>fortran_float\<close> on integer literals and
  \<open>int_str\<close> for \<open>str\<close> on the numbers 0 to 9.
\<close>

definition int_float :: "string \<Rightarrow> error + int" where
  "int_float s = py_int s"

definition int_str :: "int \<Rightarrow> string" where
  "int_str n = [''0123456789'' ! nat n]"

definition PSR_store :: store where
  "PSR_store = snd (alloc initial_store [''PSRJ'', ''PSRB''])"

definition PSR_param :: "(string, int) Parameter" where
  "PSR_param =
     Parameter_init ''PSR'' None None (Some ''Source name'') None True (Some 2) True
       (\<lambda>s. Inr (Some s)) (\<lambda>v. v)"

definition PSR_model :: "(string, int, unit, int, int) TimingModel" where
  "PSR_model = snd (fst (TimingModel_init (\<lambda>s. s) (\<lambda>v. v) initial_store))"

definition F0_param :: "(string, int) Parameter" where
  "F0_param =
     Parameter_init ''F0'' (Some ''100.0'') None None (Some 2) False None True
       (\<lambda>s. Inr (Some s)) (\<lambda>v. v)"

text \<open>
  \<open>F0_fresh\<close> is \<open>Parameter(name="F0", parse_value=str)\<close>, and \<open>PSR_spaced\<close> a
  source name with a blank in it.
\<close>

definition F0_fresh :: "(string, int) Parameter" where
  "F0_fresh =
     Parameter_init ''F0'' None None None None True None True
       (\<lambda>s. Inr (Some s)) (\<lambda>v. v)"

definition PSR_spaced :: "(string, int) Parameter" where
  "PSR_spaced = PSR_param\<lparr>val := Some ''J1234 +1234''\<rparr>"

text \<open>
  Four more parameters constructed without an \<open>aliases\<close> argument: one named as an alias of
  \<open>PSR\<close>, one that is not continuous, one named as a method of the model, and \<open>F1\<close>.
\<close>

definition PSRJ_param :: "(string, int) Parameter" where
  "PSRJ_param =
     Parameter_init ''PSRJ'' None None None None True None True
       (\<lambda>s. Inr (Some s)) (\<lambda>v. v)"

definition X_param :: "(string, int) Parameter" where
  "X_param =
     Parameter_init ''X'' None None None None True None False
       (\<lambda>s. Inr (Some s)) (\<lambda>v. v)"

definition delay_named :: "(string, int) Parameter" where
  "delay_named =
     Parameter_init ''delay'' None None None None True None True
       (\<lambda>s. Inr (Some s)) (\<lambda>v. v)"

definition F1_fresh :: "(string, int) Parameter" where
  "F1_fresh =
     Parameter_init ''F1'' None None None None True None True
       (\<lambda>s. Inr (Some s)) (\<lambda>v. v)"

text \<open>
  A parameter whose parser accepts digits only. A model of three parameters, \<open>PSR\<close>,
  \<open>F0\<close> and \<open>F1\<close>, in a store where \<open>add_alias\<close> has given \<open>F0\<close> the
  alias \<open>NU\<close>. Two parfiles, as the lists of their lines.
\<close>

definition digits_parse :: "string \<Rightarrow> error + string option" where
  "digits_parse s = (if s \<noteq> [] \<and> list_all isdigit s then Inr (Some s) else Inl ValueError)"

definition N_param :: "(string, int) Parameter" where
  "N_param = Parameter_init ''N'' None None None None True None True digits_parse (\<lambda>v. v)"

definition three_store :: store where
  "three_store = add_alias PSR_store F0_fresh ''NU''"

definition three_model :: "(string, int, unit, int, int) TimingModel" where
  "three_model = snd (add_param (snd (add_param PSR_model F0_fresh)) F1_fresh)"

definition good_lines :: "string list" where
  "good_lines = [''# a comment'', '''', ''PSRJ J1234+1234'', ''nu 7 1'', ''DM 1.0'', ''   '']"


section \<open>Fields of a line\<close>

lemma split_aux_nonspace:
  "list_all (\<lambda>c. \<not> isspace c) t \<Longrightarrow> split_aux cur (t @ rest) = split_aux (cur @ t) rest"
  by (induction t arbitrary: cur) simp_all

lemma split_aux_spaces:
  "list_all isspace w \<Longrightarrow> split_aux [] (w @ rest) = split_aux [] rest"
  by (induction w) simp_all

lemma isspace_blank [simp]: "isspace CHR '' ''" and isspace_newline [simp]: "isspace (CHR 0x0A)"
  by (simp_all add: isspace_def)

lemma split_token_space:
  "is_token t \<Longrightarrow> isspace c \<Longrightarrow> split (t @ c # rest) = t # split rest"
  by (simp add: split_def is_token_def split_aux_nonspace)

lemma split_token_end: "is_token t \<Longrightarrow> split t = [t]"
  using split_aux_nonspace [of t "[]" "[]"] by (simp add: split_def is_token_def)

lemma split_blanks: "split (replicate n CHR '' '' @ rest) = split rest"
  using split_aux_spaces [of "replicate n CHR '' ''" rest] by (simp add: split_def list_all_iff)

lemma split_Nil: "split [] = []"
  by (simp add: split_def)

lemma split_token_spaces:
  assumes "is_token t" and "list_all isspace w" and "w \<noteq> []"
  shows "split (t @ w @ rest) = t # split rest"
proof (cases w)
  case Nil
  with assms(3) show ?thesis by simp
next
  case (Cons c w')
  with assms(2) have c: "isspace c" and w': "list_all isspace w'" by simp_all
  have "split (t @ c # (w' @ rest)) = t # split (w' @ rest)"
    using assms(1) c by (rule split_token_space)
  also have "split (w' @ rest) = split rest"
    using w' by (simp add: split_def split_aux_spaces)
  finally show ?thesis using Cons by simp
qed

lemma split_ljust: "is_token t \<Longrightarrow> split (ljust n t @ CHR '' '' # rest) = t # split rest"
  using split_token_spaces [of t "replicate (n - length t) CHR '' '' @ '' ''" rest]
  by (simp add: ljust_def list_all_iff)

lemma split_token_newline: "is_token t \<Longrightarrow> split (t @ [CHR 0x0A]) = [t]"
  using split_token_space [of t "CHR 0x0A" "[]"] by (simp add: split_Nil)

lemma split_rjust: "split (rjust n t @ rest) = split (t @ rest)"
  by (simp add: rjust_def split_blanks)

lemma is_token_flag: "is_token (if b then ''0'' else ''1'')" and is_token_1: "is_token ''1''"
  by (simp_all add: is_token_def isspace_def)

lemma split_newline: "split [CHR 0x0A] = []"
  by (simp add: split_def)

lemma split_1_newline: "split [CHR ''1'', CHR 0x0A] = [''1'']"
  by (simp add: split_def isspace_def)

lemma split_as_parfile_line:
  assumes "is_token (name p)" and "val p = Some v" and "is_token (print_value p v)"
    and "\<And>u. uncertainty p = Some u \<Longrightarrow> is_token (str_unc u)"
  shows "split (as_parfile_line str_unc p) =
           [name p, print_value p v] @
           (case uncertainty p of
              Some u \<Rightarrow> [if frozen p then ''0'' else ''1'', str_unc u]
            | None \<Rightarrow> if frozen p then [] else [''1''])"
proof (cases "uncertainty p")
  case None
  then show ?thesis using assms(1-3)
    by (simp add: as_parfile_line_def split_ljust split_rjust split_token_space split_token_newline split_newline split_Nil split_1_newline is_token_flag)
next
  case (Some u)
  then have "is_token (str_unc u)" using assms(4) by simp
  then show ?thesis using assms(1-3) Some
    by (simp add: as_parfile_line_def split_ljust split_rjust split_token_space split_token_newline split_newline split_Nil split_1_newline is_token_flag)
qed

section \<open>Parameter: parfile lines\<close>

lemma PSR_model_eq:
  "PSR_model = \<lparr>params = [''PSR''], delay_funcs = [], phase_funcs = [],
      delay_derivs = [''PSR'' \<mapsto> []], phase_derivs = [''PSR'' \<mapsto> []], d_phase_funcs = [],
      attrs = [''PSR'' \<mapsto> PSR_param]\<rparr>"
  by (simp add: PSR_model_def TimingModel_init_def alloc_def initial_store_def add_param_def
      hasattr_def instance_attrs_def class_attrs_def object_attrs_def Parameter_init_def
      PSR_param_def Let_def)

lemma PSR_store_cells: "cells PSR_store 2 = [''PSRJ'', ''PSRB'']"
  by (simp add: PSR_store_def alloc_def initial_store_def)

lemma from_parfile_line_no_tokens:
  "split line = [] \<Longrightarrow> from_parfile_line ff h p line = (Inr False, p)"
  by (simp add: from_parfile_line_def Let_def)

lemma from_parfile_line_no_match:
  "split line = k0 # ks \<Longrightarrow> \<not> name_matches h p k0 \<Longrightarrow> from_parfile_line ff h p line = (Inr False, p)"
  by (simp add: from_parfile_line_def name_matches_def Let_def)

lemma from_parfile_line_short:
  "split line = [k0] \<Longrightarrow> from_parfile_line ff h p line = (Inr False, p)"
  by (simp add: from_parfile_line_def Let_def)

lemma from_parfile_line_claimed:
  assumes "split line = k0 # k1 # ks" and "name_matches h p k0"
  shows "from_parfile_line ff h p line =
           (case parse_value p k1 of
              Inl e \<Rightarrow> (Inl e, p)
            | Inr v \<Rightarrow>
                (case ks of
                   [] \<Rightarrow> (Inr True, p\<lparr>val := v\<rparr>)
                 | k2 # ks' \<Rightarrow>
                     (case py_int k2 of
                        Inl e \<Rightarrow> (Inl e, p\<lparr>val := v\<rparr>)
                      | Inr n \<Rightarrow>
                          (let p2 = p\<lparr>val := v, frozen := (if n > 0 then False else frozen p)\<rparr> in
                           case ks' of
                             [k3] \<Rightarrow> (case ff k3 of
                                        Inl e \<Rightarrow> (Inl e, p2)
                                      | Inr u \<Rightarrow> (Inr True, p2\<lparr>uncertainty := Some u\<rparr>))
                           | _ \<Rightarrow> (Inr True, p2)))))"
  using assms
  by (auto simp add: from_parfile_line_def name_matches_def set_value_def Let_def
      split: sum.splits list.splits)

text \<open>
  C2. \<open>as_parfile_line\<close> returns the empty string when the value is \<open>None\<close>.
  Otherwise the line is the name, left-justified in 15 columns, a blank, the printed value,
  right-justified in 25 columns, and then: with an uncertainty, the fit flag (0 when frozen,
  1 when not) and the printed uncertainty; without an uncertainty and not frozen, the fit
  flag 1 alone; without an uncertainty and frozen, nothing more. The line ends with a
  newline.
\<close>

theorem as_parfile_line_cases:
  "(val p = None \<longrightarrow> as_parfile_line str_unc p = '''') \<and>
   (val p = Some v \<longrightarrow> uncertainty p = Some u \<longrightarrow>
      as_parfile_line str_unc p =
        ljust 15 (name p) @ '' '' @ rjust 25 (print_value p v) @ '' '' @
        (if frozen p then ''0'' else ''1'') @ '' '' @ str_unc u @ [CHR 0x0A]) \<and>
   (val p = Some v \<longrightarrow> uncertainty p = None \<longrightarrow> \<not> frozen p \<longrightarrow>
      as_parfile_line str_unc p =
        ljust 15 (name p) @ '' '' @ rjust 25 (print_value p v) @ '' 1'' @ [CHR 0x0A]) \<and>
   (val p = Some v \<longrightarrow> uncertainty p = None \<longrightarrow> frozen p \<longrightarrow>
      as_parfile_line str_unc p =
        ljust 15 (name p) @ '' '' @ rjust 25 (print_value p v) @ [CHR 0x0A])"
  by (simp add: as_parfile_line_def)

theorem as_parfile_line_cases_witness:
  "as_parfile_line int_str PSR_param = '''' \<and>
   as_parfile_line int_str F0_param =
     ''F0                                  100.0 1 2'' @ [CHR 0x0A] \<and>
   as_parfile_line int_str (F0_param\<lparr>frozen := True\<rparr>) =
     ''F0                                  100.0 0 2'' @ [CHR 0x0A] \<and>
   as_parfile_line int_str (F0_param\<lparr>uncertainty := None\<rparr>) =
     ''F0                                  100.0 1'' @ [CHR 0x0A] \<and>
   as_parfile_line int_str (F0_param\<lparr>uncertainty := None, frozen := True\<rparr>) =
     ''F0                                  100.0'' @ [CHR 0x0A]"
  using as_parfile_line_cases [where p = PSR_param and str_unc = int_str]
    as_parfile_line_cases [where p = F0_param and v = "''100.0''" and u = 2 and str_unc = int_str]
    as_parfile_line_cases [where p = "F0_param\<lparr>frozen := True\<rparr>" and v = "''100.0''" and u = 2
      and str_unc = int_str]
    as_parfile_line_cases [where p = "F0_param\<lparr>uncertainty := None\<rparr>" and v = "''100.0''"
      and str_unc = int_str]
    as_parfile_line_cases [where p = "F0_param\<lparr>uncertainty := None, frozen := True\<rparr>"
      and v = "''100.0''" and str_unc = int_str]
  by (simp add: PSR_param_def F0_param_def Parameter_init_def ljust_def rjust_def int_str_def
      eval_nat_numeral)

lemma py_int_flag: "py_int ''0'' = Inr 0" "py_int ''1'' = Inr 1"
  by (simp_all add: py_int_def isdigit_def digits_value_def)

text \<open>
  C3, as the code has it. When the line is claimed, its second field is accepted by the
  parameter's parser, its third field (if there is one) is an integer and, on a line of
  exactly four fields, the fourth is accepted by \<open>fortran_float\<close>, the call returns
  \<open>True\<close>; the value is the parsed second field; \<open>frozen\<close> becomes \<open>False\<close> if
  the integer is positive and keeps its prior value otherwise; the uncertainty is the
  parsed fourth field on a line of exactly four fields and keeps its prior value on every
  other line, also on one of five or more fields.
\<close>

theorem from_parfile_line_fields:
  assumes "split line = k" and "line_matches h p line" and "2 \<le> length k"
    and "parse_value p (k ! 1) = Inr v"
    and "3 \<le> length k \<Longrightarrow> py_int (k ! 2) = Inr n"
    and "length k = 4 \<Longrightarrow> ff (k ! 3) = Inr u"
  shows "from_parfile_line ff h p line =
           (Inr True,
            p\<lparr>val := v,
              frozen := (if 3 \<le> length k \<and> 0 < n then False else frozen p),
              uncertainty := (if length k = 4 then Some u else uncertainty p)\<rparr>)"
proof -
  from assms(1,3) obtain k0 k1 ks where k: "k = k0 # k1 # ks"
    by (cases k; cases "tl k") auto
  with assms(1,2) have sp: "split line = k0 # k1 # ks" and m: "name_matches h p k0"
    by (simp_all add: line_matches_def)
  show ?thesis
    using assms(4-6) unfolding from_parfile_line_claimed [OF sp m] k
    by (cases ks; cases "tl ks") (auto simp add: Let_def split: list.splits)
qed

theorem from_parfile_line_fields_witness:
  "from_parfile_line int_float PSR_store PSR_param ''PSRJ J1234+1234 1 2'' =
     (Inr True, PSR_param\<lparr>val := Some ''J1234+1234'', frozen := False, uncertainty := Some 2\<rparr>) \<and>
   from_parfile_line int_float PSR_store (PSR_param\<lparr>frozen := False\<rparr>) ''PSR J1234+1234 0'' =
     (Inr True, PSR_param\<lparr>val := Some ''J1234+1234'', frozen := False\<rparr>)"
proof -
  let ?l = "''PSRJ J1234+1234 1 2''" and ?k = "[''PSRJ'', ''J1234+1234'', ''1'', ''2'']"
  let ?l' = "''PSR J1234+1234 0''" and ?k' = "[''PSR'', ''J1234+1234'', ''0'']"
  let ?p' = "PSR_param\<lparr>frozen := False\<rparr>"
  have 1: "split ?l = ?k" "line_matches PSR_store PSR_param ?l"
    "split ?l' = ?k'" "line_matches PSR_store ?p' ?l'"
    by code_simp+
  have 2: "2 \<le> length ?k" "parse_value PSR_param (?k ! 1) = Inr (Some ''J1234+1234'')"
    "3 \<le> length ?k \<Longrightarrow> py_int (?k ! 2) = Inr 1" "length ?k = 4 \<Longrightarrow> int_float (?k ! 3) = Inr 2"
    by (simp_all add: PSR_param_def Parameter_init_def int_float_def py_int_def isdigit_def
        digits_value_def)
  have 3: "2 \<le> length ?k'" "parse_value ?p' (?k' ! 1) = Inr (Some ''J1234+1234'')"
    "3 \<le> length ?k' \<Longrightarrow> py_int (?k' ! 2) = Inr 0" "length ?k' = 4 \<Longrightarrow> int_float (?k' ! 3) = Inr 0"
    by (simp_all add: PSR_param_def Parameter_init_def int_float_def py_int_def isdigit_def
        digits_value_def)
  show ?thesis
    using from_parfile_line_fields [where ff = int_float and n = 1 and u = 2, OF 1(1,2) 2]
      from_parfile_line_fields [where ff = int_float and n = 0 and u = 0, OF 1(3,4) 3]
    by simp
qed

text \<open>
  On the five fields of \<open>PSR J1234+1234 1 2 3\<close> the fourth field is present and the
  numeric parser accepts it, yet the call returns \<open>True\<close> without storing an
  uncertainty: the test is \<open>len(k)==4\<close>.
\<close>

theorem fourth_token_counterexample:
  "split ''PSR J1234+1234 1 2 3'' ! 3 = ''2'' \<and> int_float ''2'' = Inr 2 \<and>
   fst (from_parfile_line int_float PSR_store PSR_param ''PSR J1234+1234 1 2 3'') = Inr True \<and>
   uncertainty (snd (from_parfile_line int_float PSR_store PSR_param ''PSR J1234+1234 1 2 3'')) = None"
  by code_simp

lemma from_parfile_line_results:
  fixes p :: "('v, 'u) Parameter" and line :: string and h :: store
    and ff :: "string \<Rightarrow> error + 'u"
  defines "k \<equiv> split line" and "r \<equiv> from_parfile_line ff h p line"
  shows "(fst r = Inr False \<longleftrightarrow> \<not> line_matches h p line \<or> length k < 2) \<and>
         (fst r = Inr False \<longrightarrow> snd r = p) \<and>
         (fst r = Inr True \<longleftrightarrow>
            line_matches h p line \<and> 2 \<le> length k \<and> \<not> isl (parse_value p (k ! 1)) \<and>
            (3 \<le> length k \<longrightarrow> \<not> isl (py_int (k ! 2))) \<and>
            (length k = 4 \<longrightarrow> \<not> isl (ff (k ! 3)))) \<and>
         (line_matches h p line \<and> 2 \<le> length k \<and> parse_value p (k ! 1) = Inl e \<longrightarrow> r = (Inl e, p))"
proof (cases "split line")
  case Nil
  then show ?thesis
    by (simp add: k_def r_def line_matches_def from_parfile_line_no_tokens)
next
  case (Cons k0 ks)
  show ?thesis
  proof (cases "name_matches h p k0")
    case False
    with Cons show ?thesis
      by (simp add: k_def r_def line_matches_def from_parfile_line_no_match)
  next
    case True
    show ?thesis
    proof (cases ks)
      case Nil
      with Cons True show ?thesis
        by (simp add: k_def r_def line_matches_def from_parfile_line_short)
    next
      case (Cons k1 ks')
      with \<open>split line = k0 # ks\<close> have sp: "split line = k0 # k1 # ks'" by simp
      show ?thesis
        unfolding k_def r_def from_parfile_line_claimed [OF sp True] sp
        using True sp
        by (cases ks'; cases "tl ks'")
          (auto simp add: line_matches_def Let_def split: sum.splits list.splits)
    qed
  qed
qed

lemma from_parfile_line_alias:
  assumes "line_matches h p l1" and "line_matches h p l2" and "tl (split l1) = tl (split l2)"
  shows "from_parfile_line ff h p l1 = from_parfile_line ff h p l2"
proof -
  from assms(1) obtain a ks where 1: "split l1 = a # ks" "name_matches h p a"
    by (auto simp add: line_matches_def split: list.splits)
  from assms(2) obtain b ks' where 2: "split l2 = b # ks'" "name_matches h p b"
    by (auto simp add: line_matches_def split: list.splits)
  from assms(3) 1 2 have eq: "ks' = ks" by simp
  show ?thesis
  proof (cases ks)
    case Nil
    then show ?thesis using 1 2 eq by (simp add: from_parfile_line_short)
  next
    case (Cons k1 ks'')
    then show ?thesis
      using from_parfile_line_claimed [of l1 a k1 ks'' h p ff]
        from_parfile_line_claimed [of l2 b k1 ks'' h p ff] 1 2 eq by simp
  qed
qed

text \<open>
  C1, as the code has it. Let the name be a token that upper-casing leaves as it is, the
  value be set and print as a token, and the uncertainty, if set, print as a token. Serialise
  the parameter and read the line into a parameter \<open>q\<close> of the same name and parser
  with value and uncertainty unset and \<open>frozen\<close> true. If the parser returns \<open>w\<close>
  on the printed value and \<open>fortran_float\<close> returns \<open>g u\<close> on a printed uncertainty
  \<open>u\<close>, the call returns \<open>True\<close> and leaves \<open>q\<close> with value \<open>w\<close>, the
  uncertainty mapped by \<open>g\<close> and the frozen flag of the original: the originals, up to
  what printing and parsing do to them.
\<close>

theorem parfile_line_round_trip:
  assumes nm: "is_token (name p)" "upper (name p) = name p"
    and v: "val p = Some v" "is_token (print_value p v)"
    and parse: "parse_value p (print_value p v) = Inr w"
    and unc: "\<And>u. uncertainty p = Some u \<Longrightarrow> is_token (str_unc u) \<and> ff (str_unc u) = Inr (g u)"
    and fresh: "name q = name p" "parse_value q = parse_value p" "val q = None"
      "uncertainty q = None" "frozen q"
  shows "from_parfile_line ff h q (as_parfile_line str_unc p) =
           (Inr True, q\<lparr>val := w, uncertainty := map_option g (uncertainty p), frozen := frozen p\<rparr>)"
proof -
  have m: "name_matches h q (name p)"
    using nm(2) fresh(1) by (simp add: name_matches_def)
  have tok: "\<And>u. uncertainty p = Some u \<Longrightarrow> is_token (str_unc u)"
    using unc by simp
  note sp = split_as_parfile_line [OF nm(1) v tok]
  show ?thesis
  proof (cases "uncertainty p")
    case None
    with sp have "split (as_parfile_line str_unc p) =
        name p # print_value p v # (if frozen p then [] else [''1''])" by simp
    from from_parfile_line_claimed [OF this m, of ff] show ?thesis
      using None parse fresh by (simp add: py_int_flag)
  next
    case (Some u)
    with sp have "split (as_parfile_line str_unc p) =
        name p # print_value p v # [if frozen p then ''0'' else ''1'', str_unc u]" by simp
    from from_parfile_line_claimed [OF this m, of ff] show ?thesis
      using Some parse fresh unc [OF Some] by (simp add: py_int_flag)
  qed
qed

theorem parfile_line_round_trip_witness:
  "from_parfile_line int_float initial_store F0_fresh (as_parfile_line int_str F0_param) =
     (Inr True, F0_fresh\<lparr>val := Some ''100.0'', uncertainty := Some 2, frozen := False\<rparr>)"
proof -
  have 1: "is_token (name F0_param)" "upper (name F0_param) = name F0_param"
    by (simp_all add: F0_param_def Parameter_init_def is_token_def isspace_def upper_def
        upper_char_def)
  have 2: "val F0_param = Some ''100.0''" "is_token (print_value F0_param ''100.0'')"
    "parse_value F0_param (print_value F0_param ''100.0'') = Inr (Some ''100.0'')"
    by (simp_all add: F0_param_def Parameter_init_def is_token_def isspace_def)
  have 3: "\<And>u. uncertainty F0_param = Some u \<Longrightarrow>
             is_token (int_str u) \<and> int_float (int_str u) = Inr ((\<lambda>x. x) u)"
    by (auto simp add: F0_param_def Parameter_init_def is_token_def isspace_def int_str_def
        int_float_def py_int_def isdigit_def digits_value_def)
  have 4: "name F0_fresh = name F0_param" "parse_value F0_fresh = parse_value F0_param"
    "val F0_fresh = None" "uncertainty F0_fresh = None" "frozen F0_fresh"
    by (simp_all add: F0_param_def F0_fresh_def Parameter_init_def)
  show ?thesis
    using parfile_line_round_trip [where p = F0_param and q = F0_fresh and str_unc = int_str
        and g = "\<lambda>x. x" and ff = int_float and h = initial_store, OF 1 2 3 4]
    by (simp add: F0_param_def Parameter_init_def)
qed

text \<open>
  The source name \<open>J1234 +1234\<close> prints as two fields. The line is claimed, the call
  returns \<open>True\<close>, and the parameter read back has the value \<open>J1234\<close> and is not
  frozen, while the original is frozen.
\<close>

theorem round_trip_counterexample:
  "fst (from_parfile_line int_float PSR_store PSR_param (as_parfile_line int_str PSR_spaced)) = Inr True \<and>
   val (snd (from_parfile_line int_float PSR_store PSR_param (as_parfile_line int_str PSR_spaced)))
     \<noteq> val PSR_spaced \<and>
   frozen (snd (from_parfile_line int_float PSR_store PSR_param (as_parfile_line int_str PSR_spaced)))
     \<noteq> frozen PSR_spaced"
  by code_simp

lemma from_parfile_line_raises:
  fixes p :: "('v, 'u) Parameter" and line :: string and h :: store
    and ff :: "string \<Rightarrow> error + 'u"
  defines "k \<equiv> split line" and "r \<equiv> from_parfile_line ff h p line"
  shows "(line_matches h p line \<and> 3 \<le> length k \<and> parse_value p (k ! 1) = Inr v \<and>
          py_int (k ! 2) = Inl e \<longrightarrow> r = (Inl e, p\<lparr>val := v\<rparr>)) \<and>
         (line_matches h p line \<and> length k = 4 \<and> parse_value p (k ! 1) = Inr v \<and>
          py_int (k ! 2) = Inr n \<and> ff (k ! 3) = Inl e \<longrightarrow>
            r = (Inl e, p\<lparr>val := v, frozen := (if 0 < n then False else frozen p)\<rparr>))"
proof (cases "split line")
  case Nil
  then show ?thesis by (simp add: k_def)
next
  case (Cons k0 ks)
  show ?thesis
  proof (cases "name_matches h p k0")
    case False
    with Cons show ?thesis by (simp add: line_matches_def)
  next
    case True
    show ?thesis
    proof (cases ks)
      case Nil
      with Cons show ?thesis by (simp add: k_def)
    next
      case (Cons k1 ks')
      with \<open>split line = k0 # ks\<close> have sp: "split line = k0 # k1 # ks'" by simp
      show ?thesis
        unfolding k_def r_def from_parfile_line_claimed [OF sp True] sp
        by (cases ks'; cases "tl ks'"; cases "tl (tl ks')")
          (auto simp add: Let_def split: sum.splits list.splits)
    qed
  qed
qed

text \<open>
  C4, as the code has it. With \<open>k\<close> the fields of the line: the call returns
  \<open>False\<close> exactly when the first field, upper-cased, is neither the name nor an alias
  (or there is no field) or the line has fewer than two fields, and then the parameter is
  unchanged. It returns \<open>True\<close> exactly when the line matches, has at least two fields,
  the parameter's parser accepts the second, the third (if present) is an integer, and on
  a line of exactly four fields \<open>fortran_float\<close> accepts the fourth. In the remaining
  cases it raises the exception of the parser that fails: that of the parameter's parser
  on the second field, with the parameter unchanged; that of \<open>int\<close> on the third
  field, with the value already set; that of \<open>fortran_float\<close> on the fourth field of
  a line of four, with the value set and \<open>frozen\<close> cleared if the third field is
  positive. Two matching lines with the same fields after the first (one led by the
  name, one by an alias) have the same outcome.
\<close>

theorem from_parfile_line_outcome:
  fixes p :: "('v, 'u) Parameter" and line :: string and h :: store
    and ff :: "string \<Rightarrow> error + 'u"
  defines "k \<equiv> split line" and "r \<equiv> from_parfile_line ff h p line"
  shows "(fst r = Inr False \<longleftrightarrow> \<not> line_matches h p line \<or> length k < 2) \<and>
         (fst r = Inr False \<longrightarrow> snd r = p) \<and>
         (fst r = Inr True \<longleftrightarrow>
            line_matches h p line \<and> 2 \<le> length k \<and> \<not> isl (parse_value p (k ! 1)) \<and>
            (3 \<le> length k \<longrightarrow> \<not> isl (py_int (k ! 2))) \<and>
            (length k = 4 \<longrightarrow> \<not> isl (ff (k ! 3)))) \<and>
         (line_matches h p line \<and> 2 \<le> length k \<and> parse_value p (k ! 1) = Inl e \<longrightarrow> r = (Inl e, p)) \<and>
         (line_matches h p line \<and> 3 \<le> length k \<and> parse_value p (k ! 1) = Inr v \<and>
          py_int (k ! 2) = Inl e \<longrightarrow> r = (Inl e, p\<lparr>val := v\<rparr>)) \<and>
         (line_matches h p line \<and> length k = 4 \<and> parse_value p (k ! 1) = Inr v \<and>
          py_int (k ! 2) = Inr n \<and> ff (k ! 3) = Inl e \<longrightarrow>
            r = (Inl e, p\<lparr>val := v, frozen := (if 0 < n then False else frozen p)\<rparr>)) \<and>
         (line_matches h p line \<and> line_matches h p line' \<and> tl (split line') = tl k \<longrightarrow>
            from_parfile_line ff h p line' = r)"
proof -
  note a = from_parfile_line_results [of ff h p line e]
  note c = from_parfile_line_raises [of h p line v e ff n]
  have b: "line_matches h p line \<and> line_matches h p line' \<and> tl (split line') = tl (split line) \<longrightarrow>
            from_parfile_line ff h p line' = from_parfile_line ff h p line"
    by (simp add: from_parfile_line_alias)
  note a1 = a [THEN conjunct1] and a2 = a [THEN conjunct2, THEN conjunct1]
    and a3 = a [THEN conjunct2, THEN conjunct2, THEN conjunct1]
    and a4 = a [THEN conjunct2, THEN conjunct2, THEN conjunct2]
    and c1 = c [THEN conjunct1] and c2 = c [THEN conjunct2]
  show ?thesis
    unfolding k_def r_def
    by (rule conjI [OF a1 conjI [OF a2 conjI [OF a3 conjI [OF a4 conjI [OF c1 conjI [OF c2 b]]]]]])
qed

theorem from_parfile_line_outcome_witness:
  "fst (from_parfile_line int_float PSR_store PSR_param ''PSR'') = Inr False \<and>
   snd (from_parfile_line int_float PSR_store PSR_param ''PSR'') = PSR_param \<and>
   fst (from_parfile_line int_float PSR_store PSR_param ''F0 100.0'') = Inr False \<and>
   fst (from_parfile_line int_float PSR_store PSR_param ''PSR J1234+1234'') = Inr True \<and>
   from_parfile_line int_float PSR_store PSR_param ''PSRJ J1234+1234'' =
     from_parfile_line int_float PSR_store PSR_param ''PSR J1234+1234'' \<and>
   from_parfile_line int_float PSR_store N_param ''N abc'' = (Inl ValueError, N_param) \<and>
   from_parfile_line int_float PSR_store PSR_param ''PSR J1234+1234 x'' =
     (Inl ValueError, PSR_param\<lparr>val := Some ''J1234+1234''\<rparr>) \<and>
   from_parfile_line int_float PSR_store PSR_param ''PSR J1234+1234 1 y'' =
     (Inl ValueError, PSR_param\<lparr>val := Some ''J1234+1234'', frozen := False\<rparr>)"
proof -
  let ?f = "from_parfile_line int_float PSR_store PSR_param"
  have 1: "length (split ''PSR'') < 2" "\<not> line_matches PSR_store PSR_param ''F0 100.0''"
    by code_simp+
  have 2: "line_matches PSR_store PSR_param ''PSR J1234+1234''"
    "line_matches PSR_store PSR_param ''PSRJ J1234+1234''"
    "line_matches PSR_store N_param ''N abc''"
    "line_matches PSR_store PSR_param ''PSR J1234+1234 x''"
    "line_matches PSR_store PSR_param ''PSR J1234+1234 1 y''"
    by code_simp+
  have 3: "split ''PSR J1234+1234'' = [''PSR'', ''J1234+1234'']"
    "split ''PSRJ J1234+1234'' = [''PSRJ'', ''J1234+1234'']"
    "split ''N abc'' = [''N'', ''abc'']"
    "split ''PSR J1234+1234 x'' = [''PSR'', ''J1234+1234'', ''x'']"
    "split ''PSR J1234+1234 1 y'' = [''PSR'', ''J1234+1234'', ''1'', ''y'']"
    by code_simp+
  have 4: "parse_value PSR_param ''J1234+1234'' = Inr (Some ''J1234+1234'')"
    "parse_value N_param ''abc'' = Inl ValueError"
    by (simp_all add: PSR_param_def N_param_def Parameter_init_def digits_parse_def isdigit_def)
  have 5: "py_int ''x'' = Inl ValueError" "py_int ''1'' = Inr 1" "int_float ''y'' = Inl ValueError"
    by (simp_all add: int_float_def py_int_def isdigit_def digits_value_def)
  have 6: "frozen PSR_param" by (simp add: PSR_param_def Parameter_init_def)
  note t1 = from_parfile_line_outcome [of int_float PSR_store PSR_param "''PSR''"]
  note t2 = from_parfile_line_outcome [of int_float PSR_store PSR_param "''F0 100.0''"]
  note t3 = from_parfile_line_outcome [where ff = int_float and h = PSR_store
      and p = PSR_param and line = "''PSR J1234+1234''" and line' = "''PSRJ J1234+1234''"]
  note t4 = from_parfile_line_outcome [where ff = int_float and h = PSR_store
      and p = N_param and line = "''N abc''" and e = ValueError]
  note t5 = from_parfile_line_outcome [where ff = int_float and h = PSR_store
      and p = PSR_param and line = "''PSR J1234+1234 x''" and e = ValueError
      and v = "Some ''J1234+1234''"]
  note t6 = from_parfile_line_outcome [where ff = int_float and h = PSR_store
      and p = PSR_param and line = "''PSR J1234+1234 1 y''" and e = ValueError
      and v = "Some ''J1234+1234''" and n = 1]
  have a: "fst (?f ''PSR'') = Inr False" using t1 1(1) by blast
  then have b: "snd (?f ''PSR'') = PSR_param" using t1 by blast
  have c: "fst (?f ''F0 100.0'') = Inr False" using t2 1(2) by blast
  have d: "fst (?f ''PSR J1234+1234'') = Inr True"
    using t3 2(1) 4(1) unfolding 3 by simp
  have e: "?f ''PSRJ J1234+1234'' = ?f ''PSR J1234+1234''"
    using t3 2 unfolding 3 by simp
  have f: "from_parfile_line int_float PSR_store N_param ''N abc'' = (Inl ValueError, N_param)"
    using t4 [THEN conjunct2, THEN conjunct2, THEN conjunct2, THEN conjunct1] 2(3) 4(2)
    unfolding 3 by simp
  have g: "?f ''PSR J1234+1234 x'' = (Inl ValueError, PSR_param\<lparr>val := Some ''J1234+1234''\<rparr>)"
    using t5 [THEN conjunct2, THEN conjunct2, THEN conjunct2, THEN conjunct2, THEN conjunct1]
      2(4) 4(1) 5(1)
    unfolding 3 by simp
  have i: "?f ''PSR J1234+1234 1 y'' =
      (Inl ValueError, PSR_param\<lparr>val := Some ''J1234+1234'', frozen := False\<rparr>)"
    using t6 [THEN conjunct2, THEN conjunct2, THEN conjunct2, THEN conjunct2, THEN conjunct2,
        THEN conjunct1] 2(5) 4(1) 5(2,3)
    unfolding 3 by simp
  from a b c d e f g i show ?thesis by blast
qed

text \<open>
  On \<open>PSR J1234+1234 x\<close> the first field is the name, there are three fields and the
  parser (\<open>str\<close>) accepts the second, but the call does not return \<open>True\<close>:
  \<open>int("x")\<close> raises \<open>ValueError\<close>, after the value has been set.
\<close>

theorem returns_true_counterexample:
  "line_matches PSR_store PSR_param ''PSR J1234+1234 x'' \<and>
   2 \<le> length (split ''PSR J1234+1234 x'') \<and>
   parse_value PSR_param (split ''PSR J1234+1234 x'' ! 1) = Inr (Some ''J1234+1234'') \<and>
   fst (from_parfile_line int_float PSR_store PSR_param ''PSR J1234+1234 x'') = Inl ValueError \<and>
   val (snd (from_parfile_line int_float PSR_store PSR_param ''PSR J1234+1234 x'')) = Some ''J1234+1234''"
  by code_simp

section \<open>Parameter: the shared default alias list\<close>




section \<open>TimingModel: registration and sums\<close>

text \<open>
  C5, as the code has it. \<open>add_param\<close> with a parameter whose name is that of a
  registered parameter raises \<open>DuplicateParameter\<close> with that name and leaves the
  model as it was. When the model has no attribute of that name the call succeeds: the
  parameter is stored under its name, the name is appended to \<open>params\<close>, and empty
  provider lists are made in both derivative mappings when the parameter is continuous
  and only then. Aliases play no part in the test.
\<close>

theorem add_param_outcome:
  "(attrs m (name p) = Some q \<longrightarrow> add_param m p = (Inl (DuplicateParameter (name p)), m)) \<and>
   (\<not> hasattr m (name p) \<longrightarrow>
      fst (add_param m p) = Inr () \<and>
      params (snd (add_param m p)) = params m @ [name p] \<and>
      attrs (snd (add_param m p)) = (attrs m)(name p \<mapsto> p) \<and>
      delay_derivs (snd (add_param m p)) =
        (if continuous p then (delay_derivs m)(name p \<mapsto> []) else delay_derivs m) \<and>
      phase_derivs (snd (add_param m p)) =
        (if continuous p then (phase_derivs m)(name p \<mapsto> []) else phase_derivs m) \<and>
      delay_funcs (snd (add_param m p)) = delay_funcs m \<and>
      phase_funcs (snd (add_param m p)) = phase_funcs m)"
  by (simp add: add_param_def hasattr_def Let_def)

theorem add_param_outcome_witness:
  "add_param PSR_model PSR_param = (Inl (DuplicateParameter ''PSR''), PSR_model) \<and>
   fst (add_param PSR_model F0_fresh) = Inr () \<and>
   params (snd (add_param PSR_model F0_fresh)) = [''PSR'', ''F0''] \<and>
   delay_derivs (snd (add_param PSR_model F0_fresh)) ''F0'' = Some [] \<and>
   phase_derivs (snd (add_param PSR_model F0_fresh)) ''F0'' = Some [] \<and>
   params (snd (add_param PSR_model X_param)) = [''PSR'', ''X''] \<and>
   delay_derivs (snd (add_param PSR_model X_param)) ''X'' = None"
proof -
  have 1: "attrs PSR_model (name PSR_param) = Some PSR_param"
    by (simp add: PSR_model_eq) (simp add: PSR_param_def Parameter_init_def)
  have 2: "\<not> hasattr PSR_model (name F0_fresh)" "\<not> hasattr PSR_model (name X_param)"
    by (simp_all add: PSR_model_eq hasattr_def instance_attrs_def class_attrs_def object_attrs_def
        F0_fresh_def X_param_def Parameter_init_def)
  have 3: "name PSR_param = ''PSR''" "name F0_fresh = ''F0''" "continuous F0_fresh"
    "name X_param = ''X''" "\<not> continuous X_param"
    by (simp_all add: PSR_param_def F0_fresh_def X_param_def Parameter_init_def)
  show ?thesis
    using add_param_outcome [of PSR_model PSR_param PSR_param]
      add_param_outcome [of PSR_model F0_fresh] add_param_outcome [of PSR_model X_param] 1 2
    by (simp add: 3 PSR_model_eq)
qed

text \<open>
  \<open>PSRJ\<close> is an alias of the registered parameter \<open>PSR\<close>, and a parameter named
  \<open>PSRJ\<close> is registered without an error.
\<close>

theorem alias_name_counterexample:
  "attrs PSR_model ''PSR'' = Some PSR_param \<and>
   ''PSRJ'' \<in> set (cells PSR_store (aliases PSR_param)) \<and>
   name PSRJ_param = ''PSRJ'' \<and>
   fst (add_param PSR_model PSRJ_param) = Inr () \<and>
   params (snd (add_param PSR_model PSRJ_param)) = [''PSR'', ''PSRJ'']"
  by (simp add: PSR_model_eq PSR_store_cells add_param_def hasattr_def instance_attrs_def
      class_attrs_def object_attrs_def PSRJ_param_def Parameter_init_def Let_def)
    (simp add: PSR_param_def Parameter_init_def PSR_store_cells)

text \<open>
  C10. For every model, \<open>add_param\<close> with a parameter whose name is an attribute
  that every model has (among them \<open>params\<close>, \<open>delay_funcs\<close>, \<open>setup\<close>,
  \<open>delay\<close> and \<open>phase\<close>) raises \<open>DuplicateParameter\<close> and leaves the model
  as it was, whether or not a parameter of that name was registered; and no call of
  \<open>add_param\<close> ever registers a parameter under such a name.
\<close>

theorem add_param_reserved_names:
  "(name p \<in> set reserved_attrs \<longrightarrow> add_param m p = (Inl (DuplicateParameter (name p)), m)) \<and>
   set [''params'', ''delay_funcs'', ''setup'', ''delay'', ''phase''] \<subseteq> set reserved_attrs \<and>
   (list_all (\<lambda>n. attrs m n = None) reserved_attrs \<longrightarrow>
      list_all (\<lambda>n. attrs (snd (add_param m p)) n = None) reserved_attrs)"
proof (intro conjI impI)
  assume "name p \<in> set reserved_attrs"
  then have "hasattr m (name p)"
    by (auto simp add: hasattr_def reserved_attrs_def)
  then show "add_param m p = (Inl (DuplicateParameter (name p)), m)"
    by (simp add: add_param_def)
next
  show "set [''params'', ''delay_funcs'', ''setup'', ''delay'', ''phase''] \<subseteq> set reserved_attrs"
    by (simp add: reserved_attrs_def instance_attrs_def class_attrs_def)
next
  assume a: "list_all (\<lambda>n. attrs m n = None) reserved_attrs"
  show "list_all (\<lambda>n. attrs (snd (add_param m p)) n = None) reserved_attrs"
  proof (cases "hasattr m (name p)")
    case True
    then show ?thesis using a by (simp add: add_param_def)
  next
    case False
    then have "name p \<notin> set reserved_attrs"
      by (auto simp add: hasattr_def reserved_attrs_def)
    then show ?thesis using a False
      by (auto simp add: add_param_def Let_def list_all_iff)
  qed
qed

theorem add_param_reserved_names_witness:
  "add_param PSR_model delay_named = (Inl (DuplicateParameter ''delay''), PSR_model) \<and>
   attrs PSR_model ''delay'' = None"
proof -
  have 1: "name delay_named \<in> set reserved_attrs"
    by (simp add: delay_named_def Parameter_init_def reserved_attrs_def class_attrs_def)
  have 2: "name delay_named = ''delay''"
    by (simp add: delay_named_def Parameter_init_def)
  show ?thesis
    using add_param_reserved_names [of delay_named PSR_model] 1
    by (simp add: 2 PSR_model_eq)
qed

lemma foldl_plus_map:
  fixes a :: "'d::{zero,plus}"
  shows "foldl (\<lambda>acc f. acc + f x) a fs = foldl (+) a (map (\<lambda>f. f x) fs)"
  by (simp add: foldl_map)

text \<open>
  C8. \<open>delay(toa)\<close> over no delay functions is zero; over the registered functions
  it is the sum of their values at \<open>toa\<close>, each function applied on its own to the
  same \<open>toa\<close> and the values added from zero in list order; one more function adds
  its value at \<open>toa\<close>. Nothing is assumed of the addition (it need not be
  associative, as the addition of doubles is not), so the sum is the one the loop
  computes, from the left.
\<close>

theorem delay_sum:
  fixes m :: "('v, 'u, 'toa, 'd::{zero,plus}, 'ph) TimingModel"
  shows "delay (m\<lparr>delay_funcs := []\<rparr>) toa = 0 \<and>
         delay m toa = foldl (+) 0 (map (\<lambda>df. df toa) (delay_funcs m)) \<and>
         delay (m\<lparr>delay_funcs := delay_funcs m @ [df]\<rparr>) toa = delay m toa + df toa"
  by (simp add: delay_def foldl_plus_map)

text \<open>
  C6, as the code has it. For a name with an empty provider list in \<open>delay_derivs\<close>
  (as \<open>add_param\<close> makes for a continuous parameter), \<open>d_delay_d_param\<close> returns
  zero; with providers it returns the sum of their values at \<open>toa\<close>, added from zero
  in list order (nothing is assumed of the addition); for a name with no entry in
  \<open>delay_derivs\<close> (as for a parameter registered with \<open>continuous\<close> false) it
  raises \<open>KeyError\<close>.
\<close>

theorem d_delay_d_param_outcome:
  fixes m :: "('v, 'u, 'toa, 'd::{zero,plus}, 'ph) TimingModel"
  shows "(delay_derivs m param = Some [] \<longrightarrow> d_delay_d_param m toa param = Inr 0) \<and>
         (delay_derivs m param = Some fs \<longrightarrow>
            d_delay_d_param m toa param = Inr (foldl (+) 0 (map (\<lambda>f. f toa) fs))) \<and>
         (delay_derivs m param = Some (fs @ [f]) \<longrightarrow>
            d_delay_d_param m toa param = Inr (foldl (+) 0 (map (\<lambda>f. f toa) fs) + f toa)) \<and>
         (delay_derivs m param = None \<longrightarrow> d_delay_d_param m toa param = Inl (KeyError param)) \<and>
         (\<not> hasattr m (name p) \<and> continuous p \<longrightarrow>
            d_delay_d_param (snd (add_param m p)) toa (name p) = Inr 0) \<and>
         (\<not> hasattr m (name p) \<and> \<not> continuous p \<and> delay_derivs m (name p) = None \<longrightarrow>
            d_delay_d_param (snd (add_param m p)) toa (name p) = Inl (KeyError (name p)))"
  by (simp add: d_delay_d_param_def foldl_plus_map add_param_def Let_def)

theorem d_delay_d_param_outcome_witness:
  "d_delay_d_param PSR_model () ''PSR'' = Inr 0 \<and>
   d_delay_d_param (PSR_model\<lparr>delay_derivs := [''PSR'' \<mapsto> [\<lambda>_. 3, \<lambda>_. 4]]\<rparr>) () ''PSR'' = Inr 7 \<and>
   d_delay_d_param PSR_model () ''F0'' = Inl (KeyError ''F0'') \<and>
   d_delay_d_param (snd (add_param PSR_model F0_fresh)) () ''F0'' = Inr 0 \<and>
   d_delay_d_param (snd (add_param PSR_model X_param)) () ''X'' = Inl (KeyError ''X'')"
proof -
  have 1: "delay_derivs PSR_model ''PSR'' = Some []" "delay_derivs PSR_model ''F0'' = None"
    "delay_derivs PSR_model ''X'' = None"
    by (simp_all add: PSR_model_eq)
  have 2: "\<not> hasattr PSR_model (name F0_fresh)" "\<not> hasattr PSR_model (name X_param)"
    by (simp_all add: PSR_model_eq hasattr_def instance_attrs_def class_attrs_def object_attrs_def
        F0_fresh_def X_param_def Parameter_init_def)
  have 3: "name F0_fresh = ''F0''" "continuous F0_fresh"
    "name X_param = ''X''" "\<not> continuous X_param"
    by (simp_all add: F0_fresh_def X_param_def Parameter_init_def)
  let ?m = "PSR_model\<lparr>delay_derivs := [''PSR'' \<mapsto> [\<lambda>_. 3, \<lambda>_. 4]]\<rparr>"
  have 4: "delay_derivs ?m ''PSR'' = Some [\<lambda>_. 3, \<lambda>_. 4]" by simp
  show ?thesis
    using d_delay_d_param_outcome [where m = PSR_model and param = "''PSR''" and toa = "()"]
      d_delay_d_param_outcome [where m = ?m and param = "''PSR''" and toa = "()"
        and fs = "[\<lambda>_. 3, \<lambda>_. 4]"]
      d_delay_d_param_outcome [where m = ?m and param = "''PSR''" and toa = "()"
        and fs = "[\<lambda>_. 3]" and f = "\<lambda>_. 4"]
      d_delay_d_param_outcome [where m = PSR_model and param = "''F0''" and toa = "()"
        and p = F0_fresh]
      d_delay_d_param_outcome [where m = PSR_model and param = "''X''" and toa = "()"
        and p = X_param]
      1 2 4
    by (simp add: 3)
qed

text \<open>
  \<open>X\<close> is registered, not continuous, and has no provider; the derivative of the
  delay with respect to it is a \<open>KeyError\<close>, not zero.
\<close>

theorem no_entry_counterexample:
  "fst (add_param PSR_model X_param) = Inr () \<and>
   ''X'' \<in> set (params (snd (add_param PSR_model X_param))) \<and>
   delay_derivs (snd (add_param PSR_model X_param)) ''X'' = None \<and>
   d_delay_d_param (snd (add_param PSR_model X_param)) () ''X'' = Inl (KeyError ''X'')"
  by (simp add: PSR_model_eq add_param_def hasattr_def instance_attrs_def class_attrs_def
      object_attrs_def X_param_def Parameter_init_def Let_def d_delay_d_param_def)

section \<open>TimingModel: reading a parfile\<close>

lemma dropWhile_Cons_head:
  assumes "dropWhile P l = c # cs"
  shows "\<not> P c" and "c \<in> set l"
proof -
  show "\<not> P c" using hd_dropWhile [of P l] assms by simp
  have "c \<in> set (dropWhile P l)" using assms by simp
  then show "c \<in> set l" by (rule set_dropWhileD)
qed

lemma dropWhile_isspace_Nil_iff: "dropWhile isspace l = [] \<longleftrightarrow> list_all isspace l"
  by (simp add: list_all_iff)

lemma strip_Nil_iff: "strip l = [] \<longleftrightarrow> list_all isspace l"
proof (cases "dropWhile isspace l")
  case Nil
  then have "list_all isspace l" using dropWhile_isspace_Nil_iff [of l] by blast
  moreover have "strip l = []" unfolding strip_def Nil by simp
  ultimately show ?thesis by simp
next
  case (Cons c cs)
  then have "\<not> isspace c" by (rule dropWhile_Cons_head)
  then have "dropWhile isspace (rev cs @ [c]) = dropWhile isspace (rev cs) @ [c]"
    by (simp add: dropWhile_append3)
  then have "strip l \<noteq> []" using Cons by (simp add: strip_def)
  moreover have "\<not> list_all isspace l"
    using dropWhile_isspace_Nil_iff [of l] Cons by auto
  ultimately show ?thesis by simp
qed

lemma strip_Cons:
  assumes "dropWhile isspace l = c # cs"
  shows "strip l = c # rev (dropWhile isspace (rev cs))"
proof -
  from assms have "\<not> isspace c" by (rule dropWhile_Cons_head)
  then have "dropWhile isspace (rev cs @ [c]) = dropWhile isspace (rev cs) @ [c]"
    by (simp add: dropWhile_append3)
  then show ?thesis using assms by (simp add: strip_def)
qed

lemma skipped_iff: "skipped l \<longleftrightarrow> strip l = [] \<or> startswith (strip l) ''#''"
proof (cases "dropWhile isspace l")
  case Nil
  then have "list_all isspace l" using dropWhile_isspace_Nil_iff [of l] by blast
  then show ?thesis by (simp add: skipped_def strip_Nil_iff)
next
  case (Cons c cs)
  then have "\<not> list_all isspace l"
    using dropWhile_isspace_Nil_iff [of l] by auto
  then show ?thesis using Cons strip_Cons [OF Cons]
    by (simp add: skipped_def strip_Nil_iff startswith_def)
qed












lemma read_lines_Cons_skipped:
  "skipped l0 \<Longrightarrow> read_lines ff h m (l0 # ls) = read_lines ff h m ls"
  by (auto simp add: skipped_iff Let_def)





lemma offer_line_append:
  "offer_line ff h m l (pars @ pars') b =
     (case offer_line ff h m l pars b of
        (Inl e, m1) \<Rightarrow> (Inl e, m1)
      | (Inr b1, m1) \<Rightarrow> offer_line ff h m1 l pars' b1)"
  by (induction pars arbitrary: m b) (simp_all split: option.splits prod.splits sum.splits)

lemma read_parfile_Cons_skipped:
  "skipped l0 \<Longrightarrow> read_parfile ff h m (l0 # ls) = read_parfile ff h m ls"
  by (simp add: read_parfile_def read_lines_Cons_skipped del: read_lines.simps)









lemma read_parfile_good_lines:
  "fst (read_parfile int_float three_store three_model good_lines) = Inr () \<and>
   map (\<lambda>n. map_option (\<lambda>p. (val p, frozen p))
              (attrs (fst (snd (read_parfile int_float three_store three_model good_lines))) n))
     [''PSR'', ''F0'', ''F1''] =
     [Some (Some ''J1234+1234'', True), Some (Some ''7'', False), Some (Some ''7'', False)]"
  by code_simp


end
